theory Spec2Isabelle
  imports Main "HOL-Library.Word"
begin

unbundle bit_operations_syntax

section \<open>Bytes, Go strings and runes\<close>

text \<open>
  A Go \<open>byte\<close> is an 8-bit word and a \<open>[]byte\<close> a list of them. A Go \<open>string\<close> is an
  immutable byte sequence, so it is a byte list too. Go's \<open>int\<close> is modelled as \<open>int\<close>:
  every \<open>int\<close> of the code below is a buffer position or a length read from at most four
  bytes, far from the 64-bit bounds. A \<open>rune\<close> (int32) is an \<open>int\<close> as well: the decoder
  only produces values between 0 and 0x1FFFFF.
\<close>

type_synonym byte = "8 word"
type_synonym gostring = "byte list"
type_synonym rune = int

subsection \<open>The parts of Go's unicode/utf8 that common.go calls\<close>

text \<open>
  \<open>utf8.RuneError\<close>, \<open>utf8.RuneStart\<close>, \<open>utf8.DecodeRune\<close> and \<open>utf8.AppendRune\<close> belong to
  Go's standard library. They are written here after the library's source: the table
  \<open>first\<close> of per-leading-byte information, the table \<open>acceptRanges\<close> of the admissible
  second bytes, and the two functions with their branches in the library's order.
\<close>

definition RuneError :: rune where
  "RuneError = 0xFFFD"

definition RuneStart :: "byte \<Rightarrow> bool" where
  "RuneStart b = (b AND 0xC0 \<noteq> 0x80)"

definition first :: "byte \<Rightarrow> byte" where
  "first b =
     (if b < 0x80 then 0xF0
      else if b < 0xC2 then 0xF1
      else if b < 0xE0 then 0x02
      else if b = 0xE0 then 0x13
      else if b < 0xED then 0x03
      else if b = 0xED then 0x23
      else if b < 0xF0 then 0x03
      else if b = 0xF0 then 0x34
      else if b < 0xF4 then 0x04
      else if b = 0xF4 then 0x44
      else 0xF1)"

definition acceptRanges :: "nat \<Rightarrow> byte \<times> byte" where
  "acceptRanges i =
     (if i = 0 then (0x80, 0xBF)
      else if i = 1 then (0xA0, 0xBF)
      else if i = 2 then (0x80, 0x9F)
      else if i = 3 then (0x90, 0xBF)
      else if i = 4 then (0x80, 0x8F)
      else (0, 0))"

definition DecodeRune :: "byte list \<Rightarrow> rune \<times> nat" where
  "DecodeRune p =
     (case p of
        [] \<Rightarrow> (RuneError, 0)
      | p0 # _ \<Rightarrow>
          let x = first p0 in
          if x \<ge> 0xF0 then ((if x = 0xF0 then uint p0 else RuneError), 1)
          else
            let sz = unat (x AND 7);
                accept = acceptRanges (unat (drop_bit 4 x))
            in
            if length p < sz then (RuneError, 1)
            else
              let b1 = p ! 1 in
              if b1 < fst accept \<or> snd accept < b1 then (RuneError, 1)
              else if sz \<le> 2 then
                (push_bit 6 (uint (p0 AND 0x1F)) OR uint (b1 AND 0x3F), 2)
              else
                let b2 = p ! 2 in
                if b2 < 0x80 \<or> 0xBF < b2 then (RuneError, 1)
                else if sz \<le> 3 then
                  (push_bit 12 (uint (p0 AND 0x0F)) OR push_bit 6 (uint (b1 AND 0x3F))
                     OR uint (b2 AND 0x3F), 3)
                else
                  let b3 = p ! 3 in
                  if b3 < 0x80 \<or> 0xBF < b3 then (RuneError, 1)
                  else
                    (push_bit 18 (uint (p0 AND 0x07)) OR push_bit 12 (uint (b1 AND 0x3F))
                       OR push_bit 6 (uint (b2 AND 0x3F)) OR uint (b3 AND 0x3F), 4))"

text \<open>
  \<open>AppendRune\<close> compares \<open>uint32(r)\<close>, written \<open>r mod 2 ^ 32\<close>; \<open>byte(r >> k)\<close> keeps the
  low eight bits of the shifted rune.
\<close>

definition AppendRune :: "byte list \<Rightarrow> rune \<Rightarrow> byte list" where
  "AppendRune p r =
     (let i = r mod 2 ^ 32 in
      if i \<le> 0x7F then p @ [word_of_int r]
      else if i \<le> 0x7FF then
        p @ [0xC0 OR word_of_int (drop_bit 6 r), 0x80 OR (word_of_int r AND 0x3F)]
      else
        let r3 = (if i > 0x10FFFF \<or> (0xD800 \<le> i \<and> i \<le> 0xDFFF) then RuneError else r) in
        if i > 0x10FFFF \<or> (0xD800 \<le> i \<and> i \<le> 0xDFFF) \<or> i \<le> 0xFFFF then
          p @ [0xE0 OR word_of_int (drop_bit 12 r3),
               0x80 OR (word_of_int (drop_bit 6 r3) AND 0x3F),
               0x80 OR (word_of_int r3 AND 0x3F)]
        else
          p @ [0xF0 OR word_of_int (drop_bit 18 r),
               0x80 OR (word_of_int (drop_bit 12 r) AND 0x3F),
               0x80 OR (word_of_int (drop_bit 6 r) AND 0x3F),
               0x80 OR (word_of_int r AND 0x3F)])"

section \<open>Text transcoder (common.go)\<close>

text \<open>
  \<open>UTF8FindNextLeadingByte\<close>: the loop over \<open>Offset\<close>, which leaves at the first offset
  greater than 0 holding a leading byte, or at the end of the buffer.
\<close>

function UTF8FindNextLeadingByte_loop :: "byte list \<Rightarrow> nat \<Rightarrow> nat" where
  "UTF8FindNextLeadingByte_loop Buffer Offset =
     (if Offset < length Buffer then
        (if Offset > 0 \<and> RuneStart (Buffer ! Offset) then Offset
         else UTF8FindNextLeadingByte_loop Buffer (Offset + 1))
      else Offset)"
  by pat_completeness auto
termination
  by (relation "measure (\<lambda>(Buffer, Offset). length Buffer - Offset)") auto

declare UTF8FindNextLeadingByte_loop.simps [simp del]

definition UTF8FindNextLeadingByte :: "byte list \<Rightarrow> nat" where
  "UTF8FindNextLeadingByte Buffer = UTF8FindNextLeadingByte_loop Buffer 0"

lemma UTF8FindNextLeadingByte_loop_ge: "Offset \<le> UTF8FindNextLeadingByte_loop Buffer Offset"
proof (induction Buffer Offset rule: UTF8FindNextLeadingByte_loop.induct)
  case (1 Buffer Offset)
  show ?case
  proof (cases "Offset < length Buffer \<and> \<not> (Offset > 0 \<and> RuneStart (Buffer ! Offset))")
    case True
    with 1 have "Offset + 1 \<le> UTF8FindNextLeadingByte_loop Buffer (Offset + 1)" by simp
    with True show ?thesis by (subst UTF8FindNextLeadingByte_loop.simps) simp
  next
    case False
    then show ?thesis by (subst UTF8FindNextLeadingByte_loop.simps) auto
  qed
qed

lemma UTF8FindNextLeadingByte_pos: "Buffer \<noteq> [] \<Longrightarrow> 0 < UTF8FindNextLeadingByte Buffer"
proof -
  assume ne: "Buffer \<noteq> []"
  have "Suc 0 \<le> UTF8FindNextLeadingByte_loop Buffer (Suc 0)"
    by (rule UTF8FindNextLeadingByte_loop_ge)
  with ne show ?thesis
    unfolding UTF8FindNextLeadingByte_def
    by (subst UTF8FindNextLeadingByte_loop.simps) simp
qed

lemma DecodeRune_size_pos: "p \<noteq> [] \<Longrightarrow> 0 < snd (DecodeRune p)"
  by (cases p) (simp_all add: DecodeRune_def Let_def)

text \<open>
  \<open>UTF8ToLatin1\<close>: the loop over \<open>ReadPos\<close> with the output \<open>Result\<close>. The two \<open>if\<close>
  statements of the body follow each other as in the source: the first advances
  \<open>ReadPos\<close>, the second appends one byte.
\<close>

function UTF8ToLatin1_loop :: "byte list \<Rightarrow> nat \<Rightarrow> byte list \<Rightarrow> byte list" where
  "UTF8ToLatin1_loop Buffer ReadPos Result =
     (if ReadPos < length Buffer then
        let Codepoint = fst (DecodeRune (drop ReadPos Buffer));
            Size = snd (DecodeRune (drop ReadPos Buffer));
            ReadPos1 = (if Codepoint \<noteq> RuneError then ReadPos + Size
                        else ReadPos + UTF8FindNextLeadingByte (drop ReadPos Buffer));
            Result1 = (if Codepoint \<ge> 0 \<and> Codepoint \<le> 0xFF
                       then Result @ [word_of_int Codepoint]
                       else Result @ [0x3F])
        in UTF8ToLatin1_loop Buffer ReadPos1 Result1
      else Result)"
  by pat_completeness auto
termination
proof (relation "measure (\<lambda>(Buffer, ReadPos, Result). length Buffer - ReadPos)")
  show "wf (measure (\<lambda>(Buffer, ReadPos, Result). length Buffer - ReadPos))" by simp
next
  fix Buffer :: "byte list" and ReadPos :: nat and Result :: "byte list"
    and Codepoint Size ReadPos1 Result1
  assume lt: "ReadPos < length Buffer"
    and cp: "Codepoint = fst (DecodeRune (drop ReadPos Buffer))"
    and sz: "Size = snd (DecodeRune (drop ReadPos Buffer))"
    and rp: "ReadPos1 = (if Codepoint \<noteq> RuneError then ReadPos + Size
                         else ReadPos + UTF8FindNextLeadingByte (drop ReadPos Buffer))"
  from lt have ne: "drop ReadPos Buffer \<noteq> []" by simp
  have "0 < Size" using DecodeRune_size_pos [OF ne] sz by simp
  moreover have "0 < UTF8FindNextLeadingByte (drop ReadPos Buffer)"
    by (rule UTF8FindNextLeadingByte_pos [OF ne])
  ultimately have "ReadPos < ReadPos1" using rp by simp
  with lt show "((Buffer, ReadPos1, Result1), (Buffer, ReadPos, Result))
        \<in> measure (\<lambda>(Buffer, ReadPos, Result). length Buffer - ReadPos)"
    by simp
qed

declare UTF8ToLatin1_loop.simps [simp del]

definition UTF8ToLatin1 :: "byte list \<Rightarrow> byte list" where
  "UTF8ToLatin1 Buffer = UTF8ToLatin1_loop Buffer 0 []"

definition Latin1ToUTF8 :: "byte list \<Rightarrow> byte list" where
  "Latin1ToUTF8 Buffer = foldl (\<lambda>Result b. AppendRune Result (uint b)) [] Buffer"


section \<open>Byte codec (common.go)\<close>

subsection \<open>encoding/binary, little-endian, on a slice that starts at an offset\<close>

text \<open>
  \<open>binary.LittleEndian.Uint16(b[off:])\<close> and its siblings read and write through a
  slice of the buffer; the offset of the slice is the second argument here, and a write
  returns the whole buffer. Every call of the code is guarded by a bounds check, so the
  panic of the library on a short slice is never reached.
\<close>

definition LittleEndian_Uint16 :: "byte list \<Rightarrow> nat \<Rightarrow> 16 word" where
  "LittleEndian_Uint16 b off = ucast (b ! off) OR push_bit 8 (ucast (b ! (off + 1)))"

definition LittleEndian_Uint32 :: "byte list \<Rightarrow> nat \<Rightarrow> 32 word" where
  "LittleEndian_Uint32 b off =
     ucast (b ! off) OR push_bit 8 (ucast (b ! (off + 1)))
       OR push_bit 16 (ucast (b ! (off + 2))) OR push_bit 24 (ucast (b ! (off + 3)))"

definition LittleEndian_PutUint16 :: "byte list \<Rightarrow> nat \<Rightarrow> 16 word \<Rightarrow> byte list" where
  "LittleEndian_PutUint16 b off v = b[off := ucast v, off + 1 := ucast (drop_bit 8 v)]"

definition LittleEndian_PutUint32 :: "byte list \<Rightarrow> nat \<Rightarrow> 32 word \<Rightarrow> byte list" where
  "LittleEndian_PutUint32 b off v =
     b[off := ucast v, off + 1 := ucast (drop_bit 8 v),
       off + 2 := ucast (drop_bit 16 v), off + 3 := ucast (drop_bit 24 v)]"

definition BigEndian_PutUint32 :: "byte list \<Rightarrow> nat \<Rightarrow> 32 word \<Rightarrow> byte list" where
  "BigEndian_PutUint32 b off v =
     b[off := ucast (drop_bit 24 v), off + 1 := ucast (drop_bit 16 v),
       off + 2 := ucast (drop_bit 8 v), off + 3 := ucast v]"

definition BigEndian_Uint32 :: "byte list \<Rightarrow> nat \<Rightarrow> 32 word" where
  "BigEndian_Uint32 b off =
     ucast (b ! (off + 3)) OR push_bit 8 (ucast (b ! (off + 2)))
       OR push_bit 16 (ucast (b ! (off + 1))) OR push_bit 24 (ucast (b ! off))"

text \<open>\<open>copy(dst, src)\<close> with \<open>dst = b[d:]\<close> and \<open>src = b[s:]\<close> of the same array: the
  number of bytes moved is the shorter of the two lengths, and overlapping is handled as
  by memmove (the source bytes are those before the copy).\<close>

definition copy_within :: "byte list \<Rightarrow> nat \<Rightarrow> nat \<Rightarrow> byte list" where
  "copy_within b d s =
     (let n = min (length b - d) (length b - s)
      in take d b @ take n (drop s b) @ drop (d + n) b)"

text \<open>\<open>copy(b[d:], src)\<close> from another slice.\<close>

definition copy_into :: "byte list \<Rightarrow> nat \<Rightarrow> byte list \<Rightarrow> byte list" where
  "copy_into b d src =
     (let n = min (length b - d) (length src)
      in take d b @ take n src @ drop (d + n) b)"

subsection \<open>TReadBuffer\<close>

text \<open>
  Every read buffer of the program is created at position 0 by \<open>ExecuteQuery\<close> and its
  position only grows, so a position is never negative and \<open>nat\<close> of it is the index Go
  uses.
\<close>

record TReadBuffer =
  RBuffer :: "byte list"
  RPosition :: int

definition R_CanRead :: "TReadBuffer \<Rightarrow> int \<Rightarrow> bool" where
  "R_CanRead ReadBuffer Bytes = (RPosition ReadBuffer + Bytes \<le> int (length (RBuffer ReadBuffer)))"

definition R_Overflowed :: "TReadBuffer \<Rightarrow> bool" where
  "R_Overflowed ReadBuffer = (RPosition ReadBuffer > int (length (RBuffer ReadBuffer)))"

definition Read8 :: "TReadBuffer \<Rightarrow> byte \<times> TReadBuffer" where
  "Read8 ReadBuffer =
     ((if R_CanRead ReadBuffer 1 then RBuffer ReadBuffer ! nat (RPosition ReadBuffer) else 0),
      ReadBuffer\<lparr>RPosition := RPosition ReadBuffer + 1\<rparr>)"

definition ReadFlag :: "TReadBuffer \<Rightarrow> bool \<times> TReadBuffer" where
  "ReadFlag ReadBuffer = (fst (Read8 ReadBuffer) \<noteq> 0, snd (Read8 ReadBuffer))"

definition Read16 :: "TReadBuffer \<Rightarrow> 16 word \<times> TReadBuffer" where
  "Read16 ReadBuffer =
     ((if R_CanRead ReadBuffer 2
       then LittleEndian_Uint16 (RBuffer ReadBuffer) (nat (RPosition ReadBuffer)) else 0),
      ReadBuffer\<lparr>RPosition := RPosition ReadBuffer + 2\<rparr>)"

definition Read32 :: "TReadBuffer \<Rightarrow> 32 word \<times> TReadBuffer" where
  "Read32 ReadBuffer =
     ((if R_CanRead ReadBuffer 4
       then LittleEndian_Uint32 (RBuffer ReadBuffer) (nat (RPosition ReadBuffer)) else 0),
      ReadBuffer\<lparr>RPosition := RPosition ReadBuffer + 4\<rparr>)"

definition Read32BE :: "TReadBuffer \<Rightarrow> 32 word \<times> TReadBuffer" where
  "Read32BE ReadBuffer =
     ((if R_CanRead ReadBuffer 4
       then BigEndian_Uint32 (RBuffer ReadBuffer) (nat (RPosition ReadBuffer)) else 0),
      ReadBuffer\<lparr>RPosition := RPosition ReadBuffer + 4\<rparr>)"

definition ReadString :: "TReadBuffer \<Rightarrow> gostring \<times> TReadBuffer" where
  "ReadString ReadBuffer =
     (let r16 = Read16 ReadBuffer;
          rl = (if uint (fst r16) = 0xFFFF
                then (uint (fst (Read32 (snd r16))), snd (Read32 (snd r16)))
                else (uint (fst r16), snd r16));
          Length = fst rl;
          RB = snd rl;
          Result = (if R_CanRead RB Length
                    then Latin1ToUTF8 (take (nat Length) (drop (nat (RPosition RB)) (RBuffer RB)))
                    else [])
      in (Result, RB\<lparr>RPosition := RPosition RB + Length\<rparr>))"

subsection \<open>TWriteBuffer\<close>

record TWriteBuffer =
  WBuffer :: "byte list"
  WPosition :: int

definition CanWrite :: "TWriteBuffer \<Rightarrow> int \<Rightarrow> bool" where
  "CanWrite WriteBuffer Bytes = (WPosition WriteBuffer + Bytes \<le> int (length (WBuffer WriteBuffer)))"

definition Overflowed :: "TWriteBuffer \<Rightarrow> bool" where
  "Overflowed WriteBuffer = (WPosition WriteBuffer > int (length (WBuffer WriteBuffer)))"

definition Write8 :: "byte \<Rightarrow> TWriteBuffer \<Rightarrow> TWriteBuffer" where
  "Write8 Value WriteBuffer =
     (let WB = (if CanWrite WriteBuffer 1
                then WriteBuffer\<lparr>WBuffer := (WBuffer WriteBuffer)[nat (WPosition WriteBuffer) := Value]\<rparr>
                else WriteBuffer)
      in WB\<lparr>WPosition := WPosition WB + 1\<rparr>)"

definition Write16 :: "16 word \<Rightarrow> TWriteBuffer \<Rightarrow> TWriteBuffer" where
  "Write16 Value WriteBuffer =
     (let WB = (if CanWrite WriteBuffer 2
                then WriteBuffer\<lparr>WBuffer :=
                       LittleEndian_PutUint16 (WBuffer WriteBuffer) (nat (WPosition WriteBuffer)) Value\<rparr>
                else WriteBuffer)
      in WB\<lparr>WPosition := WPosition WB + 2\<rparr>)"

definition Write32 :: "32 word \<Rightarrow> TWriteBuffer \<Rightarrow> TWriteBuffer" where
  "Write32 Value WriteBuffer =
     (let WB = (if CanWrite WriteBuffer 4
                then WriteBuffer\<lparr>WBuffer :=
                       LittleEndian_PutUint32 (WBuffer WriteBuffer) (nat (WPosition WriteBuffer)) Value\<rparr>
                else WriteBuffer)
      in WB\<lparr>WPosition := WPosition WB + 4\<rparr>)"

definition Write32BE :: "32 word \<Rightarrow> TWriteBuffer \<Rightarrow> TWriteBuffer" where
  "Write32BE Value WriteBuffer =
     (let WB = (if CanWrite WriteBuffer 4
                then WriteBuffer\<lparr>WBuffer :=
                       BigEndian_PutUint32 (WBuffer WriteBuffer) (nat (WPosition WriteBuffer)) Value\<rparr>
                else WriteBuffer)
      in WB\<lparr>WPosition := WPosition WB + 4\<rparr>)"

definition WriteString :: "gostring \<Rightarrow> TWriteBuffer \<Rightarrow> TWriteBuffer" where
  "WriteString String WriteBuffer =
     (let Output = UTF8ToLatin1 String;
          Length = int (length Output);
          WB1 = (if Length < 0xFFFF then Write16 (word_of_int Length) WriteBuffer
                 else Write32 (word_of_int Length) (Write16 0xFFFF WriteBuffer));
          WB2 = (if CanWrite WB1 Length
                 then WB1\<lparr>WBuffer := copy_into (WBuffer WB1) (nat (WPosition WB1)) Output\<rparr>
                 else WB1)
      in WB2\<lparr>WPosition := WPosition WB2 + Length\<rparr>)"

definition Rewrite16 :: "int \<Rightarrow> 16 word \<Rightarrow> TWriteBuffer \<Rightarrow> TWriteBuffer" where
  "Rewrite16 Position Value WriteBuffer =
     (if Position + 2 \<le> WPosition WriteBuffer \<and> \<not> Overflowed WriteBuffer
      then WriteBuffer\<lparr>WBuffer := LittleEndian_PutUint16 (WBuffer WriteBuffer) (nat Position) Value\<rparr>
      else WriteBuffer)"

definition Insert32 :: "int \<Rightarrow> 32 word \<Rightarrow> TWriteBuffer \<Rightarrow> TWriteBuffer" where
  "Insert32 Position Value WriteBuffer =
     (if Position \<le> WPosition WriteBuffer then
        (let WB = (if CanWrite WriteBuffer 4
                   then WriteBuffer\<lparr>WBuffer :=
                          LittleEndian_PutUint32
                            (copy_within (WBuffer WriteBuffer) (nat (Position + 4)) (nat Position))
                            (nat Position) Value\<rparr>
                   else WriteBuffer)
         in WB\<lparr>WPosition := WPosition WB + 4\<rparr>)
      else WriteBuffer)"


section \<open>Connection and query executor (query.go)\<close>

subsection \<open>The network\<close>

text \<open>
  The TCP connection is the only effect of the executor. The connection record carries,
  beside the handle, a script \<open>Wire\<close> of the outcomes of the network calls still to come
  (one event per call of \<open>net.Dial\<close>, \<open>Handle.Write\<close> or \<open>Handle.Read\<close>, in the order of
  the calls) and the log \<open>Sent\<close> of the calls made so far. An event says whether the call
  returns an error and, for a read, which bytes it puts into the destination; a call on an
  exhausted script fails. The code looks at the error of a call only, never at the byte
  count, so a read without error may deliver fewer bytes than asked for. \<open>Handle.Close\<close>
  consumes no event: its error is only logged. Logging is not modelled.
\<close>

datatype NetEvent = NetEvent (Err: bool) (Payload: "byte list")

datatype NetAction = Dial | Write "byte list" | Read nat | Close

record TQueryManagerConnection =
  Handle :: bool
  Wire :: "NetEvent list"
  Sent :: "NetAction list"

definition net_Dial :: "TQueryManagerConnection \<Rightarrow> bool \<times> TQueryManagerConnection" where
  "net_Dial C =
     (case Wire C of
        [] \<Rightarrow> (True, C\<lparr>Sent := Sent C @ [Dial]\<rparr>)
      | e # es \<Rightarrow> (Err e, C\<lparr>Wire := es, Sent := Sent C @ [Dial]\<rparr>))"

definition net_Write :: "byte list \<Rightarrow> TQueryManagerConnection \<Rightarrow> bool \<times> TQueryManagerConnection" where
  "net_Write Data C =
     (case Wire C of
        [] \<Rightarrow> (True, C\<lparr>Sent := Sent C @ [Write Data]\<rparr>)
      | e # es \<Rightarrow> (Err e, C\<lparr>Wire := es, Sent := Sent C @ [Write Data]\<rparr>))"

text \<open>\<open>Handle.Read(b[:n])\<close>: the bytes of the event, at most \<open>n\<close> of them, replace the
  beginning of \<open>b\<close>.\<close>

definition net_Read ::
  "byte list \<Rightarrow> nat \<Rightarrow> TQueryManagerConnection \<Rightarrow> bool \<times> byte list \<times> TQueryManagerConnection" where
  "net_Read b n C =
     (case Wire C of
        [] \<Rightarrow> (True, b, C\<lparr>Sent := Sent C @ [Read n]\<rparr>)
      | e # es \<Rightarrow>
          (Err e, copy_into b 0 (take (min n (length b)) (Payload e)),
           C\<lparr>Wire := es, Sent := Sent C @ [Read n]\<rparr>))"

subsection \<open>Constants and configuration\<close>

definition APPLICATION_TYPE_WEB :: byte where "APPLICATION_TYPE_WEB = 3"

definition QUERY_STATUS_OK :: int where "QUERY_STATUS_OK = 0"
definition QUERY_STATUS_ERROR :: int where "QUERY_STATUS_ERROR = 1"
definition QUERY_STATUS_FAILED :: int where "QUERY_STATUS_FAILED = 3"

definition QUERY_LOGIN :: int where "QUERY_LOGIN = 0"
definition QUERY_GET_ACCOUNT_SUMMARY :: int where "QUERY_GET_ACCOUNT_SUMMARY = 102"
definition QUERY_GET_CHARACTER_PROFILE :: int where "QUERY_GET_CHARACTER_PROFILE = 103"
definition QUERY_GET_WORLDS :: int where "QUERY_GET_WORLDS = 150"

definition MaxAttempts :: nat where "MaxAttempts = 2"

text \<open>
  The configuration variables are declared in templates.go and set from the
  configuration file; they are fixed while the queries run and are passed as a record.
  Durations are in nanoseconds, as \<open>time.Duration\<close> is.
\<close>

record Config =
  g_QueryManagerPassword :: gostring
  g_MaxCachedAccounts :: int
  g_MaxCachedCharacters :: int
  g_CharacterRefreshInterval :: int
  g_WorldRefreshInterval :: int

text \<open>A Go panic is a value of its own; every function that can panic returns a sum.\<close>

datatype panic = write_buffer_is_empty | index_out_of_range | makeslice_len_out_of_range

subsection \<open>Disconnect, PrepareQuery\<close>

definition Disconnect :: "TQueryManagerConnection \<Rightarrow> TQueryManagerConnection" where
  "Disconnect Connection =
     (if Handle Connection
      then Connection\<lparr>Handle := False, Sent := Sent Connection @ [Close]\<rparr>
      else Connection)"

definition PrepareQuery :: "int \<Rightarrow> byte list \<Rightarrow> TWriteBuffer" where
  "PrepareQuery QueryType Buffer =
     Write8 (word_of_int QueryType) (Write16 0 \<lparr>WBuffer = Buffer, WPosition = 0\<rparr>)"

definition nil_ReadBuffer :: TReadBuffer where
  "nil_ReadBuffer = \<lparr>RBuffer = [], RPosition = 0\<rparr>"

subsection \<open>Connect and ExecuteQuery\<close>

text \<open>
  \<open>ExecuteQuery\<close> calls \<open>Connect\<close> when it may reconnect, and \<open>Connect\<close> runs the login
  through \<open>ExecuteQuery\<close> with \<open>AutoReconnect = false\<close>. The three functions are defined
  together: \<open>ExecuteQuery\<close> up to the retry loop, \<open>ExecuteQuery_loop\<close> for one pass of
  the loop \<open>for Attempt := 1; true; Attempt += 1\<close> (a \<open>continue\<close> is the recursive call at
  \<open>Attempt + 1\<close>), and \<open>Connect\<close>.

  The response is read into the buffer of the request. The results are the status, the
  read buffer, the write buffer (which shares its array with the read buffer, so it
  holds the bytes read) and the connection.
\<close>

type_synonym query_result = "int \<times> TReadBuffer \<times> TWriteBuffer \<times> TQueryManagerConnection"

function (sequential)
  ExecuteQuery :: "Config \<Rightarrow> bool \<Rightarrow> TWriteBuffer option \<Rightarrow> TQueryManagerConnection
                     \<Rightarrow> panic + query_result"
  and ExecuteQuery_loop :: "Config \<Rightarrow> bool \<Rightarrow> TWriteBuffer \<Rightarrow> nat \<Rightarrow> TQueryManagerConnection
                     \<Rightarrow> panic + query_result"
  and Connect :: "Config \<Rightarrow> TQueryManagerConnection \<Rightarrow> panic + bool \<times> TQueryManagerConnection"
where
  "ExecuteQuery cfg AutoReconnect None Connection = Inl write_buffer_is_empty"
| "ExecuteQuery cfg AutoReconnect (Some WriteBuffer) Connection =
     (if WPosition WriteBuffer \<le> 2 then Inl write_buffer_is_empty
      else
        let RequestSize = WPosition WriteBuffer - 2;
            WB = (if RequestSize < 0xFFFF
                  then Rewrite16 0 (word_of_int RequestSize) WriteBuffer
                  else Insert32 2 (word_of_int RequestSize) (Rewrite16 0 0xFFFF WriteBuffer))
        in if Overflowed WB
           then Inr (QUERY_STATUS_FAILED, nil_ReadBuffer, WB, Connection)
           else ExecuteQuery_loop cfg AutoReconnect WB 1 Connection)"
| "ExecuteQuery_loop cfg AutoReconnect WB Attempt Connection =
     (case (if Handle Connection then Inr (True, Connection)
            else if AutoReconnect then Connect cfg Connection
            else Inr (False, Connection)) of
        Inl p \<Rightarrow> Inl p
      | Inr (Connected, C1) \<Rightarrow>
          if \<not> Connected then Inr (QUERY_STATUS_FAILED, nil_ReadBuffer, WB, C1)
          else
            let Buffer = WBuffer WB; WriteSize = WPosition WB in
            (case net_Write (take (nat WriteSize) Buffer) C1 of
               (WErr, C2) \<Rightarrow>
                 if WErr then
                   (if Attempt \<ge> MaxAttempts
                    then Inr (QUERY_STATUS_FAILED, nil_ReadBuffer, WB, Disconnect C2)
                    else ExecuteQuery_loop cfg AutoReconnect WB (Attempt + 1) (Disconnect C2))
                 else
                   (case net_Read [0, 0, 0, 0] 2 C2 of
                      (RErr, Help, C3) \<Rightarrow>
                        if RErr then
                          (if Attempt \<ge> MaxAttempts
                           then Inr (QUERY_STATUS_FAILED, nil_ReadBuffer, WB, Disconnect C3)
                           else ExecuteQuery_loop cfg AutoReconnect WB (Attempt + 1) (Disconnect C3))
                        else
                          let ResponseSize = uint (LittleEndian_Uint16 Help 0) in
                          (case (if ResponseSize = 0xFFFF
                                 then (case net_Read Help 4 C3 of
                                         (XErr, Help4, C4) \<Rightarrow>
                                           if XErr then Inl (Disconnect C4)
                                           else Inr (uint (LittleEndian_Uint32 Help4 0), C4))
                                 else Inr (ResponseSize, C3)) of
                             Inl C5 \<Rightarrow> Inr (QUERY_STATUS_FAILED, nil_ReadBuffer, WB, C5)
                           | Inr (ResponseSize, C5) \<Rightarrow>
                               if ResponseSize \<le> 0 \<or> ResponseSize > int (length Buffer)
                               then Inr (QUERY_STATUS_FAILED, nil_ReadBuffer, WB, Disconnect C5)
                               else
                                 (case net_Read Buffer (nat ResponseSize) C5 of
                                    (BErr, Buffer1, C6) \<Rightarrow>
                                      if BErr
                                      then Inr (QUERY_STATUS_FAILED, nil_ReadBuffer,
                                                WB\<lparr>WBuffer := Buffer1\<rparr>, Disconnect C6)
                                      else
                                        let ReadBuffer = \<lparr>RBuffer = Buffer1, RPosition = 0\<rparr>
                                        in Inr (uint (fst (Read8 ReadBuffer)), snd (Read8 ReadBuffer),
                                                WB\<lparr>WBuffer := Buffer1\<rparr>, C6))))))"
| "Connect cfg Connection =
     (if Handle Connection then Inr (False, Connection)
      else
        (case net_Dial Connection of
           (DErr, C1) \<Rightarrow>
             if DErr then Inr (False, C1)
             else
               let WB0 = PrepareQuery QUERY_LOGIN (replicate 1024 0);
                   WB1 = Write8 APPLICATION_TYPE_WEB WB0;
                   WB2 = WriteString (g_QueryManagerPassword cfg) WB1
               in (case ExecuteQuery cfg False (Some WB2) (C1\<lparr>Handle := True\<rparr>) of
                     Inl p \<Rightarrow> Inl p
                   | Inr (Status, ReadBuffer, WB3, C2) \<Rightarrow>
                       if Status \<noteq> QUERY_STATUS_OK then Inr (False, Disconnect C2)
                       else Inr (True, C2))))"
  by pat_completeness auto
termination
  by (relation "measure (\<lambda>x. case x of
          Inl (cfg, AutoReconnect, WriteBuffer, Connection) \<Rightarrow> (if AutoReconnect then 10 else 0) + 4
        | Inr (Inl (cfg, AutoReconnect, WB, Attempt, Connection)) \<Rightarrow>
            (if AutoReconnect then 10 else 0) + (3 - Attempt)
        | Inr (Inr (cfg, Connection)) \<Rightarrow> 5)")
     (auto simp: MaxAttempts_def)

declare ExecuteQuery.simps [simp del] ExecuteQuery_loop.simps [simp del] Connect.simps [simp del]


section \<open>Typed query operations (query.go)\<close>

record TWorld =
  W_Name :: gostring
  W_Type :: gostring
  W_NumPlayers :: int
  W_MaxPlayers :: int
  W_OnlinePeak :: int
  W_OnlinePeakTimestamp :: int
  W_LastStartup :: int
  W_LastShutdown :: int

record TCharacterSummary =
  CS_Name :: gostring
  CS_World :: gostring
  CS_Level :: int
  CS_Profession :: gostring
  CS_Online :: bool
  CS_Deleted :: bool

record TAccountSummary =
  AS_AccountID :: int
  AS_Email :: gostring
  AS_PremiumDays :: int
  AS_PendingPremiumDays :: int
  AS_Deleted :: bool
  AS_Characters :: "TCharacterSummary list"

record TCharacterProfile =
  CP_Name :: gostring
  CP_World :: gostring
  CP_Sex :: int
  CP_Guild :: gostring
  CP_Rank :: gostring
  CP_Title :: gostring
  CP_Level :: int
  CP_Profession :: gostring
  CP_Residence :: gostring
  CP_LastLogin :: int
  CP_PremiumDays :: int
  CP_Online :: bool
  CP_Deleted :: bool

text \<open>The zero values of the structs, which Go gives to a declared result and to the
  elements of a fresh slice.\<close>

definition zero_TAccountSummary :: TAccountSummary where
  "zero_TAccountSummary =
     \<lparr>AS_AccountID = 0, AS_Email = [], AS_PremiumDays = 0, AS_PendingPremiumDays = 0,
      AS_Deleted = False, AS_Characters = []\<rparr>"

definition zero_TCharacterProfile :: TCharacterProfile where
  "zero_TCharacterProfile =
     \<lparr>CP_Name = [], CP_World = [], CP_Sex = 0, CP_Guild = [], CP_Rank = [], CP_Title = [],
      CP_Level = 0, CP_Profession = [], CP_Residence = [], CP_LastLogin = 0,
      CP_PremiumDays = 0, CP_Online = False, CP_Deleted = False\<rparr>"

definition ascii :: "string \<Rightarrow> gostring" where
  "ascii cs = map of_char cs"

definition WorldTypeString :: "int \<Rightarrow> gostring" where
  "WorldTypeString Type =
     (if Type = 0 then ascii ''Normal''
      else if Type = 1 then ascii ''Non-PvP''
      else if Type = 2 then ascii ''PvP-Enforced''
      else ascii ''Unknown'')"

text \<open>The loops that fill a slice of \<open>n\<close> elements from the read buffer, in index order.\<close>

fun ReadCharacterSummaries :: "nat \<Rightarrow> TReadBuffer \<Rightarrow> TCharacterSummary list \<times> TReadBuffer" where
  "ReadCharacterSummaries 0 ReadBuffer = ([], ReadBuffer)"
| "ReadCharacterSummaries (Suc n) ReadBuffer =
     (let r1 = ReadString ReadBuffer;
          r2 = ReadString (snd r1);
          r3 = Read16 (snd r2);
          r4 = ReadString (snd r3);
          r5 = ReadFlag (snd r4);
          r6 = ReadFlag (snd r5);
          rest = ReadCharacterSummaries n (snd r6)
      in (\<lparr>CS_Name = fst r1, CS_World = fst r2, CS_Level = uint (fst r3),
           CS_Profession = fst r4, CS_Online = fst r5, CS_Deleted = fst r6\<rparr> # fst rest,
          snd rest))"

fun ReadWorlds :: "nat \<Rightarrow> TReadBuffer \<Rightarrow> TWorld list \<times> TReadBuffer" where
  "ReadWorlds 0 ReadBuffer = ([], ReadBuffer)"
| "ReadWorlds (Suc n) ReadBuffer =
     (let r1 = ReadString ReadBuffer;
          r2 = Read8 (snd r1);
          r3 = Read16 (snd r2);
          r4 = Read16 (snd r3);
          r5 = Read16 (snd r4);
          r6 = Read32 (snd r5);
          r7 = Read32 (snd r6);
          r8 = Read32 (snd r7);
          rest = ReadWorlds n (snd r8)
      in (\<lparr>W_Name = fst r1, W_Type = WorldTypeString (uint (fst r2)),
           W_NumPlayers = uint (fst r3), W_MaxPlayers = uint (fst r4),
           W_OnlinePeak = uint (fst r5), W_OnlinePeakTimestamp = uint (fst r6),
           W_LastStartup = uint (fst r7), W_LastShutdown = uint (fst r8)\<rparr> # fst rest,
          snd rest))"

text \<open>
  The methods of \<open>TQueryManagerConnection\<close> carry the prefix \<open>QM_\<close>, since the package
  has functions of the same names in front of the caches. Each returns the result code,
  the decoded value and the connection.
\<close>

definition QM_GetAccountSummary ::
  "Config \<Rightarrow> int \<Rightarrow> TQueryManagerConnection
     \<Rightarrow> panic + int \<times> TAccountSummary \<times> TQueryManagerConnection" where
  "QM_GetAccountSummary cfg AccountID Connection =
     (let WB0 = PrepareQuery QUERY_GET_ACCOUNT_SUMMARY (replicate 16384 0);
          WB1 = Write32 (word_of_int AccountID) WB0
      in case ExecuteQuery cfg True (Some WB1) Connection of
           Inl p \<Rightarrow> Inl p
         | Inr (Status, ReadBuffer, WB, C) \<Rightarrow>
             if Status = QUERY_STATUS_OK then
               (let r1 = ReadString ReadBuffer;
                    r2 = Read16 (snd r1);
                    r3 = Read16 (snd r2);
                    r4 = ReadFlag (snd r3);
                    r5 = Read8 (snd r4);
                    NumCharacters = unat (fst r5)
                in Inr (0,
                        \<lparr>AS_AccountID = AccountID, AS_Email = fst r1,
                         AS_PremiumDays = uint (fst r2), AS_PendingPremiumDays = uint (fst r3),
                         AS_Deleted = fst r4,
                         AS_Characters =
                           (if NumCharacters > 0
                            then fst (ReadCharacterSummaries NumCharacters (snd r5)) else [])\<rparr>,
                        C))
             else if Status = QUERY_STATUS_ERROR then
               (let ErrorCode = uint (fst (Read8 ReadBuffer))
                in Inr ((if ErrorCode \<ge> 1 \<and> ErrorCode \<le> 4 then ErrorCode else -1),
                        zero_TAccountSummary, C))
             else Inr (-1, zero_TAccountSummary, C))"

definition QM_GetCharacterProfile ::
  "Config \<Rightarrow> gostring \<Rightarrow> TQueryManagerConnection
     \<Rightarrow> panic + int \<times> TCharacterProfile \<times> TQueryManagerConnection" where
  "QM_GetCharacterProfile cfg CharacterName Connection =
     (let WB0 = PrepareQuery QUERY_GET_CHARACTER_PROFILE (replicate 16384 0);
          WB1 = WriteString CharacterName WB0
      in case ExecuteQuery cfg True (Some WB1) Connection of
           Inl p \<Rightarrow> Inl p
         | Inr (Status, ReadBuffer, WB, C) \<Rightarrow>
             if Status = QUERY_STATUS_OK then
               (let r1 = ReadString ReadBuffer;
                    r2 = ReadString (snd r1);
                    r3 = Read8 (snd r2);
                    r4 = ReadString (snd r3);
                    r5 = ReadString (snd r4);
                    r6 = ReadString (snd r5);
                    r7 = Read16 (snd r6);
                    r8 = ReadString (snd r7);
                    r9 = ReadString (snd r8);
                    r10 = Read32 (snd r9);
                    r11 = Read16 (snd r10);
                    r12 = ReadFlag (snd r11);
                    r13 = ReadFlag (snd r12)
                in Inr (0,
                        \<lparr>CP_Name = fst r1, CP_World = fst r2, CP_Sex = uint (fst r3),
                         CP_Guild = fst r4, CP_Rank = fst r5, CP_Title = fst r6,
                         CP_Level = uint (fst r7), CP_Profession = fst r8,
                         CP_Residence = fst r9, CP_LastLogin = uint (fst r10),
                         CP_PremiumDays = uint (fst r11), CP_Online = fst r12,
                         CP_Deleted = fst r13\<rparr>,
                        C))
             else if Status = QUERY_STATUS_ERROR then
               (let ErrorCode = uint (fst (Read8 ReadBuffer))
                in Inr ((if ErrorCode = 1 then ErrorCode else -1), zero_TCharacterProfile, C))
             else Inr (-1, zero_TCharacterProfile, C))"

definition QM_GetWorlds ::
  "Config \<Rightarrow> TQueryManagerConnection \<Rightarrow> panic + int \<times> TWorld list \<times> TQueryManagerConnection" where
  "QM_GetWorlds cfg Connection =
     (let WB0 = PrepareQuery QUERY_GET_WORLDS (replicate 16384 0)
      in case ExecuteQuery cfg True (Some WB0) Connection of
           Inl p \<Rightarrow> Inl p
         | Inr (Status, ReadBuffer, WB, C) \<Rightarrow>
             if Status = QUERY_STATUS_OK then
               (let r1 = Read8 ReadBuffer;
                    NumWorlds = unat (fst r1)
                in Inr (0, (if NumWorlds > 0 then fst (ReadWorlds NumWorlds (snd r1)) else []), C))
             else Inr (-1, [], C))"


section \<open>Cache layer (query.go)\<close>

subsection \<open>Time\<close>

text \<open>
  A \<open>time.Time\<close> is an instant, counted here in nanoseconds from the zero value of the
  type (the zero \<open>Time\<close> is \<open>0\<close>). \<open>Time.Sub\<close> yields a \<open>Duration\<close>, a signed 64-bit
  count of nanoseconds, and saturates at its bounds; \<open>time.Since(t)\<close> is
  \<open>time.Now().Sub(t)\<close> and \<open>time.Until(t)\<close> is \<open>t.Sub(time.Now())\<close>. Each cache function
  runs under the lock and takes the reading \<open>now\<close> of the clock as an argument: one
  reading serves the whole call.
\<close>

type_synonym Time = int

definition maxDuration :: int where "maxDuration = 2 ^ 63 - 1"
definition minDuration :: int where "minDuration = - (2 ^ 63)"

definition time_Sub :: "Time \<Rightarrow> Time \<Rightarrow> int" where
  "time_Sub t u =
     (if t - u > maxDuration then maxDuration
      else if t - u < minDuration then minDuration
      else t - u)"

definition time_Since :: "Time \<Rightarrow> Time \<Rightarrow> int" where
  "time_Since now t = time_Sub now t"

definition time_Until :: "Time \<Rightarrow> Time \<Rightarrow> int" where
  "time_Until now t = time_Sub t now"

definition Before :: "Time \<Rightarrow> Time \<Rightarrow> bool" where
  "Before t u = (t < u)"

subsection \<open>strings.EqualFold\<close>

text \<open>
  \<open>strings.EqualFold\<close> belongs to Go's standard library. Its loop over the common prefix
  of ASCII bytes is written out after the library's source. At the first position where
  either byte is not ASCII the library continues with the case folding tables of package
  \<open>unicode\<close>; that continuation is the parameter \<open>U\<close>, applied to the two remainders.
\<close>

fun EqualFold :: "(gostring \<Rightarrow> gostring \<Rightarrow> bool) \<Rightarrow> gostring \<Rightarrow> gostring \<Rightarrow> bool" where
  "EqualFold U (sr # s) (tr # t) =
     (if sr OR tr \<ge> 0x80 then U (sr # s) (tr # t)
      else if tr = sr then EqualFold U s t
      else
        let lo = (if tr < sr then tr else sr);
            hi = (if tr < sr then sr else tr)
        in if 0x41 \<le> lo \<and> lo \<le> 0x5A \<and> hi = lo + 0x20 then EqualFold U s t else False)"
| "EqualFold U s t = (length s = length t)"

subsection \<open>Global state\<close>

record TAccountCacheEntry =
  AE_AccountID :: int
  AE_Result :: int
  AE_Data :: TAccountSummary
  AE_LastAccess :: Time

record TCharacterCacheEntry =
  CE_CharacterName :: gostring
  CE_Result :: int
  CE_Data :: TCharacterProfile
  CE_LastAccess :: Time

definition zero_TAccountCacheEntry :: TAccountCacheEntry where
  "zero_TAccountCacheEntry =
     \<lparr>AE_AccountID = 0, AE_Result = 0, AE_Data = zero_TAccountSummary, AE_LastAccess = 0\<rparr>"

definition zero_TCharacterCacheEntry :: TCharacterCacheEntry where
  "zero_TCharacterCacheEntry =
     \<lparr>CE_CharacterName = [], CE_Result = 0, CE_Data = zero_TCharacterProfile, CE_LastAccess = 0\<rparr>"

text \<open>
  The package variables that the three cached lookups use. A slice variable that is
  compared with \<open>nil\<close> is an option; the mutex is not modelled, each function being one
  atomic step.
\<close>

record QueryState =
  g_QueryManagerConnection :: TQueryManagerConnection
  g_AccountCache :: "TAccountCacheEntry list option"
  g_CharacterCache :: "TCharacterCacheEntry list option"
  g_WorldCache :: "TWorld list"
  g_WorldCacheRefreshTime :: Time

text \<open>\<open>make([]T, n)\<close> panics for a negative length.\<close>

definition make_slice :: "'a \<Rightarrow> int \<Rightarrow> panic + 'a list" where
  "make_slice z n = (if n < 0 then Inl makeslice_len_out_of_range else Inr (replicate (nat n) z))"

subsection \<open>GetAccountSummary\<close>

text \<open>
  The scan \<open>for Index := 0; Index < len(g_AccountCache); Index += 1\<close>. Its state is the
  cache, \<open>Index\<close>, \<open>LeastRecentlyUsedIndex\<close> and \<open>LeastRecentlyUsedTime\<close>; it returns them
  with \<open>Entry\<close>, the index of the slot the pointer refers to, or \<open>None\<close> for \<open>nil\<close>.
\<close>

function AccountScan ::
  "Config \<Rightarrow> Time \<Rightarrow> int \<Rightarrow> TAccountCacheEntry list \<Rightarrow> nat \<Rightarrow> nat \<Rightarrow> Time
     \<Rightarrow> TAccountCacheEntry list \<times> nat option \<times> nat \<times> Time" where
  "AccountScan cfg now AccountID Cache Index LeastRecentlyUsedIndex LeastRecentlyUsedTime =
     (if Index < length Cache then
        let Cache1 = (if time_Since now (AE_LastAccess (Cache ! Index)) \<ge> g_CharacterRefreshInterval cfg
                      then Cache[Index := zero_TAccountCacheEntry] else Cache);
            Current = Cache1 ! Index;
            LRUIndex1 = (if Before (AE_LastAccess Current) LeastRecentlyUsedTime
                         then Index else LeastRecentlyUsedIndex);
            LRUTime1 = (if Before (AE_LastAccess Current) LeastRecentlyUsedTime
                        then AE_LastAccess Current else LeastRecentlyUsedTime)
        in if AE_AccountID Current = AccountID then (Cache1, Some Index, LRUIndex1, LRUTime1)
           else AccountScan cfg now AccountID Cache1 (Index + 1) LRUIndex1 LRUTime1
      else (Cache, None, LeastRecentlyUsedIndex, LeastRecentlyUsedTime))"
  by pat_completeness auto
termination
  by (relation "measure (\<lambda>(cfg, now, AccountID, Cache, Index, i, t). length Cache - Index)") auto

declare AccountScan.simps [simp del]

definition GetAccountSummary ::
  "Config \<Rightarrow> Time \<Rightarrow> int \<Rightarrow> QueryState \<Rightarrow> panic + int \<times> TAccountSummary \<times> QueryState" where
  "GetAccountSummary cfg now AccountID S =
     (case (case g_AccountCache S of
              None \<Rightarrow> make_slice zero_TAccountCacheEntry (g_MaxCachedAccounts cfg)
            | Some Cache \<Rightarrow> Inr Cache) of
        Inl p \<Rightarrow> Inl p
      | Inr Cache0 \<Rightarrow>
          if Cache0 = [] then Inl index_out_of_range
          else
            (case AccountScan cfg now AccountID Cache0 0 0 (AE_LastAccess (Cache0 ! 0)) of
               (Cache1, Entry, LeastRecentlyUsedIndex, LeastRecentlyUsedTime) \<Rightarrow>
                 (case Entry of
                    None \<Rightarrow>
                      (case QM_GetAccountSummary cfg AccountID (g_QueryManagerConnection S) of
                         Inl p \<Rightarrow> Inl p
                       | Inr (Result, Account, C) \<Rightarrow>
                           Inr (Result, Account,
                                S\<lparr>g_QueryManagerConnection := C,
                                  g_AccountCache := Some
                                    (if Result = 0
                                     then Cache1[LeastRecentlyUsedIndex :=
                                            (Cache1 ! LeastRecentlyUsedIndex)
                                              \<lparr>AE_AccountID := AccountID, AE_Data := Account,
                                               AE_LastAccess := now\<rparr>]
                                     else Cache1)\<rparr>))
                  | Some i \<Rightarrow>
                      Inr (0, AE_Data (Cache1 ! i),
                           S\<lparr>g_AccountCache := Some (Cache1[i := (Cache1 ! i)\<lparr>AE_LastAccess := now\<rparr>])\<rparr>))))"

subsection \<open>GetCharacterProfile\<close>

function CharacterScan ::
  "(gostring \<Rightarrow> gostring \<Rightarrow> bool) \<Rightarrow> Config \<Rightarrow> Time \<Rightarrow> gostring \<Rightarrow> TCharacterCacheEntry list
     \<Rightarrow> nat \<Rightarrow> nat \<Rightarrow> Time \<Rightarrow> TCharacterCacheEntry list \<times> nat option \<times> nat \<times> Time" where
  "CharacterScan U cfg now CharacterName Cache Index LeastRecentlyUsedIndex LeastRecentlyUsedTime =
     (if Index < length Cache then
        let Cache1 = (if time_Since now (CE_LastAccess (Cache ! Index)) \<ge> g_CharacterRefreshInterval cfg
                      then Cache[Index := zero_TCharacterCacheEntry] else Cache);
            Current = Cache1 ! Index;
            LRUIndex1 = (if Before (CE_LastAccess Current) LeastRecentlyUsedTime
                         then Index else LeastRecentlyUsedIndex);
            LRUTime1 = (if Before (CE_LastAccess Current) LeastRecentlyUsedTime
                        then CE_LastAccess Current else LeastRecentlyUsedTime)
        in if EqualFold U (CE_CharacterName Current) CharacterName
           then (Cache1, Some Index, LRUIndex1, LRUTime1)
           else CharacterScan U cfg now CharacterName Cache1 (Index + 1) LRUIndex1 LRUTime1
      else (Cache, None, LeastRecentlyUsedIndex, LeastRecentlyUsedTime))"
  by pat_completeness auto
termination
  by (relation "measure (\<lambda>(U, cfg, now, CharacterName, Cache, Index, i, t). length Cache - Index)")
     auto

declare CharacterScan.simps [simp del]

definition GetCharacterProfile ::
  "(gostring \<Rightarrow> gostring \<Rightarrow> bool) \<Rightarrow> Config \<Rightarrow> Time \<Rightarrow> gostring \<Rightarrow> QueryState
     \<Rightarrow> panic + int \<times> TCharacterProfile \<times> QueryState" where
  "GetCharacterProfile U cfg now CharacterName S =
     (case (case g_CharacterCache S of
              None \<Rightarrow> make_slice zero_TCharacterCacheEntry (g_MaxCachedCharacters cfg)
            | Some Cache \<Rightarrow> Inr Cache) of
        Inl p \<Rightarrow> Inl p
      | Inr Cache0 \<Rightarrow>
          if Cache0 = [] then Inl index_out_of_range
          else
            (case CharacterScan U cfg now CharacterName Cache0 0 0 (CE_LastAccess (Cache0 ! 0)) of
               (Cache1, Entry, LeastRecentlyUsedIndex, LeastRecentlyUsedTime) \<Rightarrow>
                 (case Entry of
                    None \<Rightarrow>
                      (case QM_GetCharacterProfile cfg CharacterName (g_QueryManagerConnection S) of
                         Inl p \<Rightarrow> Inl p
                       | Inr (Result, Character, C) \<Rightarrow>
                           Inr (Result, Character,
                                S\<lparr>g_QueryManagerConnection := C,
                                  g_CharacterCache := Some
                                    (Cache1[LeastRecentlyUsedIndex :=
                                       \<lparr>CE_CharacterName = CharacterName, CE_Result = Result,
                                        CE_Data = Character, CE_LastAccess = now\<rparr>])\<rparr>))
                  | Some i \<Rightarrow>
                      Inr (CE_Result (Cache1 ! i), CE_Data (Cache1 ! i),
                           S\<lparr>g_CharacterCache := Some (Cache1[i := (Cache1 ! i)\<lparr>CE_LastAccess := now\<rparr>])\<rparr>))))"

subsection \<open>GetWorlds\<close>

definition GetWorlds :: "Config \<Rightarrow> Time \<Rightarrow> QueryState \<Rightarrow> panic + TWorld list \<times> QueryState" where
  "GetWorlds cfg now S =
     (if time_Until now (g_WorldCacheRefreshTime S) \<le> 0 then
        (case QM_GetWorlds cfg (g_QueryManagerConnection S) of
           Inl p \<Rightarrow> Inl p
         | Inr (Result, Worlds, C) \<Rightarrow>
             let S1 = S\<lparr>g_QueryManagerConnection := C\<rparr>;
                 S2 = (if Result = 0
                       then S1\<lparr>g_WorldCache := Worlds,
                               g_WorldCacheRefreshTime := now + g_WorldRefreshInterval cfg\<rparr>
                       else S1)
             in Inr (g_WorldCache S2, S2))
      else Inr (g_WorldCache S, S))"


section \<open>A configuration for the examples\<close>




section \<open>Properties of the text transcoder\<close>

text \<open>What \<open>AppendRune\<close> produces for the rune of one byte, as a check that can be run on
  each of the 256 bytes.\<close>

definition enc_ok :: "byte \<Rightarrow> bool" where
  "enc_ok b = (let e = AppendRune [] (uint b) in
     (if b < 0x80 then e = [b]
      else length e = 2 \<and> first (e ! 0) = 0x02 \<and> 0x80 \<le> e ! 1 \<and> e ! 1 \<le> 0xBF \<and>
           push_bit 6 (uint ((e ! 0) AND 0x1F)) OR uint ((e ! 1) AND 0x3F) = uint b))"

lemma enc_ok_all: "list_all enc_ok (map word_of_nat [0..<256])"
  by code_simp

lemma byte_enum: "(b::byte) \<in> set (map word_of_nat [0..<256])"
proof -
  have "unat b < 256" using unsigned_less [of b, where 'a = nat] by simp
  moreover have "b = word_of_nat (unat b)" by simp
  ultimately show ?thesis by (metis (no_types, lifting) atLeastLessThan_iff image_eqI list.set_map set_upt zero_le)
qed

lemma enc_ok: "enc_ok b"
  using enc_ok_all byte_enum [of b] by (auto simp add: list_all_iff)

lemma AppendRune_append: "AppendRune p r = p @ AppendRune [] r"
  by (simp add: AppendRune_def Let_def)

lemma foldl_AppendRune:
  "foldl (\<lambda>Result (b::byte). AppendRune Result (uint b)) R bs
     = R @ foldl (\<lambda>Result (b::byte). AppendRune Result (uint b)) [] bs"
proof (induction bs arbitrary: R)
  case Nil show ?case by simp
next
  case (Cons b bs)
  have "foldl (\<lambda>Result (b::byte). AppendRune Result (uint b)) R (b # bs)
      = AppendRune R (uint b) @ foldl (\<lambda>Result (b::byte). AppendRune Result (uint b)) [] bs"
    using Cons.IH [of "AppendRune R (uint b)"] by simp
  also have "AppendRune R (uint b) = R @ AppendRune [] (uint b)"
    by (rule AppendRune_append)
  finally show ?case
    using Cons.IH [of "AppendRune [] (uint b)"] by simp
qed

lemma Latin1ToUTF8_Cons: "Latin1ToUTF8 ((b::byte) # bs) = AppendRune [] (uint b) @ Latin1ToUTF8 bs"
  unfolding Latin1ToUTF8_def
  by (simp add: foldl_AppendRune [of "AppendRune [] (uint b)"])

lemma DecodeRune_enc:
  "DecodeRune (AppendRune [] (uint (b::byte)) @ rest) = (uint b, length (AppendRune [] (uint b)))"
proof (cases "b < 0x80")
  case True
  with enc_ok [of b] have e: "AppendRune [] (uint b) = [b]" by (simp add: enc_ok_def Let_def)
  from True have "first b = 0xF0" by (simp add: first_def)
  with e show ?thesis by (simp add: DecodeRune_def Let_def)
next
  case False
  with enc_ok [of b] have ok: "length (AppendRune [] (uint b)) = 2"
    "first (AppendRune [] (uint b) ! 0) = 0x02"
    "0x80 \<le> AppendRune [] (uint b) ! 1" "AppendRune [] (uint b) ! 1 \<le> 0xBF"
    "push_bit 6 (uint ((AppendRune [] (uint b) ! 0) AND 0x1F)) OR uint ((AppendRune [] (uint b) ! 1) AND 0x3F) = uint b"
    by (simp_all add: enc_ok_def Let_def)
  from ok(1) obtain e0 e1 where e: "AppendRune [] (uint b) = [e0, e1]"
    by (cases "AppendRune [] (uint b)"; simp) (metis Suc_length_conv length_0_conv)
  with ok show ?thesis
    by (simp add: DecodeRune_def Let_def acceptRanges_def not_less)
qed

lemma uint_byte_range: "0 \<le> uint (b::byte) \<and> uint b \<le> 0xFF \<and> uint b \<noteq> RuneError"
proof -
  have "uint b < 256" using unsigned_less [of b, where 'a = int] by simp
  then show ?thesis by (simp add: RuneError_def)
qed

lemma UTF8ToLatin1_loop_enc:
  "UTF8ToLatin1_loop (pre @ AppendRune [] (uint (b::byte)) @ rest) (length pre) R
     = UTF8ToLatin1_loop (pre @ AppendRune [] (uint b) @ rest)
         (length (pre @ AppendRune [] (uint b))) (R @ [b])"
proof -
  have pos: "0 < length (AppendRune [] (uint b))"
    by (simp add: AppendRune_def Let_def)
  show ?thesis
    using pos uint_byte_range [of b]
    by (subst UTF8ToLatin1_loop.simps) (simp add: DecodeRune_enc Let_def)
qed

lemma UTF8ToLatin1_loop_Latin1ToUTF8:
  "UTF8ToLatin1_loop (pre @ Latin1ToUTF8 bs) (length pre) R = R @ bs"
proof (induction bs arbitrary: pre R)
  case Nil
  show ?case by (subst UTF8ToLatin1_loop.simps) (simp add: Latin1ToUTF8_def)
next
  case (Cons b bs)
  have "UTF8ToLatin1_loop (pre @ Latin1ToUTF8 (b # bs)) (length pre) R
      = UTF8ToLatin1_loop ((pre @ AppendRune [] (uint b)) @ Latin1ToUTF8 bs)
          (length (pre @ AppendRune [] (uint b))) (R @ [b])"
    using UTF8ToLatin1_loop_enc [of pre b "Latin1ToUTF8 bs" R]
    by (simp add: Latin1ToUTF8_Cons)
  also have "\<dots> = (R @ [b]) @ bs" by (rule Cons.IH)
  finally show ?case by simp
qed









section \<open>Properties of the byte codec\<close>















section \<open>Properties of the query executor\<close>

text \<open>
  Two abbreviations for parts of the retry loop, used to state its branches one by one:
  the connection test at the head of a pass, and the response size after the 0xFFFF
  escape.
\<close>

definition ensure_connected ::
  "Config \<Rightarrow> bool \<Rightarrow> TQueryManagerConnection \<Rightarrow> panic + bool \<times> TQueryManagerConnection" where
  "ensure_connected cfg AutoReconnect Connection =
     (if Handle Connection then Inr (True, Connection)
      else if AutoReconnect then Connect cfg Connection
      else Inr (False, Connection))"

lemma loop_panic:
  "ensure_connected cfg AutoReconnect C = Inl p
     \<Longrightarrow> ExecuteQuery_loop cfg AutoReconnect WB Attempt C = Inl p"
  by (subst ExecuteQuery_loop.simps) (simp add: ensure_connected_def)
























section \<open>The claims\<close>

text \<open>
  C8. For every byte slice, converting it with \<open>Latin1ToUTF8\<close> and back with
  \<open>UTF8ToLatin1\<close> yields exactly the original byte slice.
\<close>

theorem Latin1_UTF8_roundtrip: "UTF8ToLatin1 (Latin1ToUTF8 Buffer) = Buffer"
  using UTF8ToLatin1_loop_Latin1ToUTF8 [of "[]" Buffer "[]"]
  by (simp add: UTF8ToLatin1_def)
























end
